theory Spec2Isabelle
  imports Main "HOL-Library.Word" "HOL-Library.Sublist"
begin

section \<open>The redis plugin: zone transfer, zone name cache and query dispatch\<close>

text \<open>
  A shallow embedding of \<^verbatim>\<open>plugin/plugin.go\<close>. The record store
  (\<^verbatim>\<open>p.Redis\<close>), the DNS library (\<^verbatim>\<open>dns.Len\<close>,
  \<^verbatim>\<open>dns.Transfer\<close>), the response writer and the next plugin are
  collaborators outside the file: what they return is a parameter of the model, and what
  the plugin asks of them is recorded in a trace of events.
\<close>

subsection \<open>Zone transfer: the envelope producer\<close>

text \<open>
  \<^verbatim>\<open>dns.Envelope\<close>: the only field the plugin sets is \<^verbatim>\<open>RR\<close>
  (\<^verbatim>\<open>Error\<close> keeps its zero value).
\<close>

record 'rr Envelope =
  RR :: "'rr list"

text \<open>What the producer goroutine does on the channel \<^verbatim>\<open>ch\<close>, in order.\<close>

datatype 'rr chan_op = Send "'rr Envelope" | Close

text \<open>
  Go's slice expression \<^verbatim>\<open>s[lo:hi]\<close>: it panics unless \<open>lo \<le> hi\<close> and
  \<open>hi\<close> is within the slice (the bound is the capacity in Go; the model takes the
  length, which is never larger). \<open>None\<close> is the panic.
\<close>

definition slice :: "'a list \<Rightarrow> nat \<Rightarrow> nat \<Rightarrow> 'a list option" where
  "slice s lo hi = (if lo \<le> hi \<and> hi \<le> length s then Some (take (hi - lo) (drop lo s)) else None)"

text \<open>
  The loop \<^verbatim>\<open>for i, r := range records\<close> of the producer. \<open>rs\<close> is what is left of
  the range, \<open>i\<close> the index of its head, \<open>j\<close> and \<open>l\<close> the loop's two variables.
  \<open>len\<close> is \<^verbatim>\<open>dns.Len\<close> and \<open>L\<close> is \<^verbatim>\<open>redis.MaxTransferLength\<close>.
  The result is the envelopes sent during the loop and the final \<open>j\<close>. The running
  length \<open>l\<close> is a Go \<^verbatim>\<open>int\<close> (64 bits); the model takes \<open>int\<close>, since a sum of
  wire lengths stays far below \<open>2 ^ 63\<close>.
\<close>

fun range_loop ::
  "('rr \<Rightarrow> int) \<Rightarrow> int \<Rightarrow> 'rr list \<Rightarrow> 'rr list \<Rightarrow> nat \<Rightarrow> nat \<Rightarrow> int
    \<Rightarrow> ('rr Envelope list \<times> nat) option" where
  "range_loop len L records [] i j l = Some ([], j)"
| "range_loop len L records (r # rs) i j l =
     (let l' = l + len r in
      if l' > L then
        (case slice records j i of
           None \<Rightarrow> None
         | Some rr \<Rightarrow>
             (case range_loop len L records rs (Suc i) i 0 of
                None \<Rightarrow> None
              | Some (es, j') \<Rightarrow> Some (\<lparr>RR = rr\<rparr> # es, j')))
      else range_loop len L records rs (Suc i) j l')"

text \<open>
  The producer goroutine of \<^verbatim>\<open>handleZoneTransfer\<close>: the loop, the final
  \<^verbatim>\<open>if j < len(records)\<close> flush, and \<^verbatim>\<open>close(ch)\<close>.
\<close>

definition producer :: "('rr \<Rightarrow> int) \<Rightarrow> int \<Rightarrow> 'rr list \<Rightarrow> 'rr chan_op list option" where
  "producer len L records =
     (case range_loop len L records records 0 0 0 of
        None \<Rightarrow> None
      | Some (es, j) \<Rightarrow>
          if j < length records then
            (case slice records j (length records) of
               None \<Rightarrow> None
             | Some rr \<Rightarrow> Some (map Send (es @ [\<lparr>RR = rr\<rparr>]) @ [Close]))
          else Some (map Send es @ [Close]))"

text \<open>The envelopes a channel trace carries, in the order they were sent.\<close>

fun sent :: "'rr chan_op list \<Rightarrow> 'rr Envelope list" where
  "sent [] = []"
| "sent (Send e # ops) = e # sent ops"
| "sent (Close # ops) = sent ops"

text \<open>The summed \<^verbatim>\<open>dns.Len\<close> of an envelope's records.\<close>

definition envelope_len :: "('rr \<Rightarrow> int) \<Rightarrow> 'rr Envelope \<Rightarrow> int" where
  "envelope_len len e = sum_list (map len (RR e))"

subsection \<open>Errors, events and the plugin's state\<close>

text \<open>A Go \<^verbatim>\<open>error\<close> value; \<^verbatim>\<open>nil\<close> is \<open>None\<close> of \<open>error option\<close>.\<close>

datatype error = Error string

text \<open>\<^verbatim>\<open>dns.Msg\<close>: the fields \<^verbatim>\<open>ServeDNS\<close> sets.\<close>

record 'rr Msg =
  Authoritative :: bool
  RecursionAvailable :: bool
  Compress :: bool
  Answer :: "'rr list"
  Extra :: "'rr list"

text \<open>
  \<^verbatim>\<open>request.Request\<close>, by what \<^verbatim>\<open>state.Name()\<close> and
  \<^verbatim>\<open>state.QType()\<close> return for it.
\<close>

record Request =
  Name :: string
  QType :: "16 word"

text \<open>
  What a call of the plugin asks of its collaborators, in order. A log call is recorded
  by its fixed message; a write and a transfer are recorded with what the writer
  returned.
\<close>

datatype 'rr event =
    Ev_Log string
  | Ev_Println error
  | Ev_NextOrFailure string
  | Ev_ErrorResponse string int
  | Ev_Out "'rr chan_op list" "error option"
  | Ev_WriteMsg "'rr Msg" "error option"
  | Ev_Hijack

text \<open>The field of \<^verbatim>\<open>Plugin\<close> that the code reads and assigns.\<close>

record Plugin =
  zones :: "string list"

text \<open>
  The record store \<^verbatim>\<open>p.Redis\<close> (package \<^verbatim>\<open>coredns-redis\<close>), by
  what its methods return. \<open>'z\<close> is \<^verbatim>\<open>record.Zone\<close>, \<open>'recs\<close> the records of
  one location. \<open>LoadZoneC\<close> returns \<open>None\<close> for \<^verbatim>\<open>nil\<close>; \<open>MakeFqdn\<close> is
  \<^verbatim>\<open>zoneRecords.MakeFqdn(zone.Name)\<close>; \<open>ErrorResponse\<close> takes the request, the
  zone name and the response code (its last argument is always \<^verbatim>\<open>nil\<close>).
\<close>

record ('z, 'recs, 'rr) Redis =
  LoadZoneC :: "string \<Rightarrow> 'z option"
  FindLocation :: "string \<Rightarrow> 'z \<Rightarrow> string"
  LoadZoneRecordsC :: "string \<Rightarrow> 'z \<Rightarrow> 'recs"
  MakeFqdn :: "'z \<Rightarrow> 'recs \<Rightarrow> 'recs"
  SOA :: "'z \<Rightarrow> 'recs \<Rightarrow> 'rr list \<times> 'rr list"
  A :: "string \<Rightarrow> 'z \<Rightarrow> 'recs \<Rightarrow> 'rr list \<times> 'rr list"
  AAAA :: "string \<Rightarrow> 'z \<Rightarrow> 'recs \<Rightarrow> 'rr list \<times> 'rr list"
  CNAME :: "string \<Rightarrow> 'z \<Rightarrow> 'recs \<Rightarrow> 'rr list \<times> 'rr list"
  TXT :: "string \<Rightarrow> 'z \<Rightarrow> 'recs \<Rightarrow> 'rr list \<times> 'rr list"
  NS :: "string \<Rightarrow> 'z \<Rightarrow> 'recs \<Rightarrow> string list \<Rightarrow> 'rr list \<times> 'rr list"
  MX :: "string \<Rightarrow> 'z \<Rightarrow> 'recs \<Rightarrow> string list \<Rightarrow> 'rr list \<times> 'rr list"
  SRV :: "string \<Rightarrow> 'z \<Rightarrow> 'recs \<Rightarrow> string list \<Rightarrow> 'rr list \<times> 'rr list"
  PTR :: "string \<Rightarrow> 'z \<Rightarrow> 'recs \<Rightarrow> string list \<Rightarrow> 'rr list \<times> 'rr list"
  CAA :: "string \<Rightarrow> 'z \<Rightarrow> 'recs \<Rightarrow> 'rr list \<times> 'rr list"
  ErrorResponse :: "Request \<Rightarrow> string \<Rightarrow> int \<Rightarrow> int \<times> error option"
  AXFR :: "'z \<Rightarrow> string list \<Rightarrow> 'rr list"
  MaxTransferLength :: int

text \<open>
  The other collaborators: the next plugin (\<^verbatim>\<open>plugin.NextOrFailure\<close>), the DNS
  library (\<^verbatim>\<open>dns.Len\<close>, \<^verbatim>\<open>m.SetReply(r)\<close> on a new message,
  \<^verbatim>\<open>tr.Out\<close> by the envelopes it is offered), the request
  (\<^verbatim>\<open>state.SizeAndDo\<close>, \<^verbatim>\<open>state.Scrub\<close>) and the response writer
  (\<^verbatim>\<open>w.WriteMsg\<close>).
\<close>

record 'rr Host =
  NextOrFailure :: "string \<Rightarrow> Request \<Rightarrow> int \<times> error option"
  Len :: "'rr \<Rightarrow> int"
  SetReply :: "Request \<Rightarrow> 'rr Msg"
  SizeAndDo :: "Request \<Rightarrow> 'rr Msg \<Rightarrow> 'rr Msg"
  Scrub :: "Request \<Rightarrow> 'rr Msg \<Rightarrow> 'rr Msg"
  WriteMsg :: "'rr Msg \<Rightarrow> error option"
  Out :: "'rr Envelope list \<Rightarrow> error option"

text \<open>The query types and response codes of package \<^verbatim>\<open>dns\<close> that the plugin names.\<close>

definition TypeNone :: "16 word" where "TypeNone = 0"
definition TypeA :: "16 word" where "TypeA = 1"
definition TypeNS :: "16 word" where "TypeNS = 2"
definition TypeCNAME :: "16 word" where "TypeCNAME = 5"
definition TypeSOA :: "16 word" where "TypeSOA = 6"
definition TypePTR :: "16 word" where "TypePTR = 12"
definition TypeMX :: "16 word" where "TypeMX = 15"
definition TypeTXT :: "16 word" where "TypeTXT = 16"
definition TypeAAAA :: "16 word" where "TypeAAAA = 28"
definition TypeSRV :: "16 word" where "TypeSRV = 33"
definition TypeAXFR :: "16 word" where "TypeAXFR = 252"
definition TypeCAA :: "16 word" where "TypeCAA = 257"

definition RcodeSuccess :: int where "RcodeSuccess = 0"
definition RcodeServerFailure :: int where "RcodeServerFailure = 2"
definition RcodeNameError :: int where "RcodeNameError = 3"
definition RcodeNotImplemented :: int where "RcodeNotImplemented = 4"

subsection \<open>The zone name cache\<close>

text \<open>
  One timer tick of the refresh goroutine of \<^verbatim>\<open>startZoneNameCache\<close>. \<open>res\<close> is
  what \<^verbatim>\<open>p.Redis.LoadAllZoneNames()\<close> returns at that tick, the list \<open>z\<close> and
  the error \<open>err\<close>. An error is logged; the assignment \<^verbatim>\<open>p.zones = z\<close> follows in
  either case. The result is the plugin after the tick and the lines logged.
\<close>

definition refresh_tick :: "string list \<times> error option \<Rightarrow> Plugin \<Rightarrow> Plugin \<times> string list" where
  "refresh_tick res p =
     (case res of (z, err) \<Rightarrow>
        (p\<lparr>zones := z\<rparr>,
         (if err \<noteq> None then [''unable to load zones to cache''] else [])
           @ [''zone name cache refreshed'']))"

text \<open>
  The refresh goroutine, run against the results the store gives at the successive ticks
  of \<^verbatim>\<open>p.loadZoneTicker\<close>. Its body is one \<^verbatim>\<open>select\<close> with one case and
  no enclosing loop: with no tick it blocks (nothing changes), and after the first tick
  it returns, so the later ticks are never received.
\<close>

fun refresh_goroutine :: "(string list \<times> error option) list \<Rightarrow> Plugin \<Rightarrow> Plugin \<times> string list" where
  "refresh_goroutine [] p = (p, [])"
| "refresh_goroutine (res # later) p = refresh_tick res p"

text \<open>
  \<^verbatim>\<open>startZoneNameCache\<close>: \<open>first\<close> is the result of the load at startup, \<open>ticks\<close>
  the results at the timer's ticks. \<open>Inl\<close> is \<^verbatim>\<open>log.Fatal\<close>, which ends the
  process.
\<close>

definition startZoneNameCache ::
  "string list \<times> error option \<Rightarrow> (string list \<times> error option) list \<Rightarrow> Plugin
    \<Rightarrow> string + Plugin \<times> string list" where
  "startZoneNameCache first ticks p =
     (case first of (z, err) \<Rightarrow>
        if err \<noteq> None then Inl ''unable to load zones to cache''
        else (case refresh_goroutine ticks (p\<lparr>zones := z\<rparr>) of
                (p', logged) \<Rightarrow> Inr (p', ''zone name cache loaded'' # logged)))"

subsection \<open>The zone match\<close>

text \<open>
  Modelled from the spec: \<^verbatim>\<open>plugin.Zones(p.zones).Matches(qName)\<close> is a function of
  package \<^verbatim>\<open>coredns/plugin\<close>, which is not among the sources. The spec describes it
  as the longest-suffix match between the query name and every entry in the cached zone
  list, returning the matched zone name or an empty result if no zone in the cache is a
  suffix of the query name. The model scans the list once and keeps the longest entry
  found so far that is a suffix of the query name, starting from the empty result.
\<close>

definition Matches :: "string list \<Rightarrow> string \<Rightarrow> string" where
  "Matches z qname =
     fold (\<lambda>zname zone. if suffix zname qname \<and> length zone < length zname then zname else zone) z []"

subsection \<open>Query dispatch\<close>

text \<open>
  The \<^verbatim>\<open>switch qType\<close> of \<^verbatim>\<open>ServeDNS\<close>: the answers and extras of the
  synthesizer for the type, \<open>None\<close> for the \<^verbatim>\<open>default\<close> case.
\<close>

definition switch_qType ::
  "('z, 'recs, 'rr) Redis \<Rightarrow> Plugin \<Rightarrow> 16 word \<Rightarrow> string \<Rightarrow> 'z \<Rightarrow> 'recs
    \<Rightarrow> ('rr list \<times> 'rr list) option" where
  "switch_qType rd p qType qName zone zoneRecords =
     (if qType = TypeSOA then Some (SOA rd zone zoneRecords)
      else if qType = TypeA then Some (A rd qName zone zoneRecords)
      else if qType = TypeAAAA then Some (AAAA rd qName zone zoneRecords)
      else if qType = TypeCNAME then Some (CNAME rd qName zone zoneRecords)
      else if qType = TypeTXT then Some (TXT rd qName zone zoneRecords)
      else if qType = TypeNS then Some (NS rd qName zone zoneRecords (zones p))
      else if qType = TypeMX then Some (MX rd qName zone zoneRecords (zones p))
      else if qType = TypeSRV then Some (SRV rd qName zone zoneRecords (zones p))
      else if qType = TypePTR then Some (PTR rd qName zone zoneRecords (zones p))
      else if qType = TypeCAA then Some (CAA rd qName zone zoneRecords)
      else None)"

text \<open>
  \<^verbatim>\<open>handleZoneTransfer\<close>: the value returned and the events, \<open>None\<close> if the
  producer goroutine panics. \<^verbatim>\<open>tr.Out\<close> reads the channel the producer writes; its
  error is printed and otherwise dropped.
\<close>

definition handleZoneTransfer ::
  "('z, 'recs, 'rr) Redis \<Rightarrow> 'rr Host \<Rightarrow> 'z \<Rightarrow> string list
    \<Rightarrow> ((int \<times> error option) \<times> 'rr event list) option" where
  "handleZoneTransfer rd h zone zs =
     (let records = AXFR rd zone zs in
      case producer (Len h) (MaxTransferLength rd) records of
        None \<Rightarrow> None
      | Some ops \<Rightarrow>
          (let err = Out h (sent ops) in
           Some ((RcodeSuccess, None),
                 [Ev_Out ops err]
                   @ (case err of None \<Rightarrow> [] | Some e \<Rightarrow> [Ev_Println e])
                   @ [Ev_Hijack])))"

text \<open>
  \<^verbatim>\<open>ServeDNS\<close>: the value returned and the events. The value of a delegated query is
  what \<^verbatim>\<open>plugin.NextOrFailure\<close> returns, that of an error response what
  \<^verbatim>\<open>p.Redis.ErrorResponse\<close> returns. The error of \<^verbatim>\<open>w.WriteMsg\<close> is
  assigned to the blank identifier: it is in the event and nowhere else. The store
  connection \<^verbatim>\<open>conn\<close> (taken from the pool, closed on return) is left out: the
  store's answers are parameters already.
\<close>

definition ServeDNS ::
  "('z, 'recs, 'rr) Redis \<Rightarrow> 'rr Host \<Rightarrow> Plugin \<Rightarrow> Request
    \<Rightarrow> ((int \<times> error option) \<times> 'rr event list) option" where
  "ServeDNS rd h p req =
     (let qName = Name req; qType = QType req in
      if qName = [] \<or> qType = TypeNone then
        Some (NextOrFailure h qName req, [Ev_NextOrFailure qName])
      else
        (let zoneName = Matches (zones p) qName in
         if zoneName = [] then
           Some (NextOrFailure h qName req, [Ev_Log ''zone not found'', Ev_NextOrFailure qName])
         else
           (case LoadZoneC rd zoneName of
              None \<Rightarrow>
                Some (ErrorResponse rd req zoneName RcodeServerFailure,
                      [Ev_Log ''unable to load zone'', Ev_ErrorResponse zoneName RcodeServerFailure])
            | Some zone \<Rightarrow>
                if qType = TypeAXFR then
                  (case handleZoneTransfer rd h zone (zones p) of
                     None \<Rightarrow> None
                   | Some (ret, evs) \<Rightarrow> Some (ret, Ev_Log ''zone transfer request (Handler)'' # evs))
                else
                  (let location = FindLocation rd qName zone in
                   if location = [] then
                     Some (ErrorResponse rd req zoneName RcodeNameError,
                           [Ev_Log ''location not found for zone'', Ev_ErrorResponse zoneName RcodeNameError])
                   else
                     (let zoneRecords = MakeFqdn rd zone (LoadZoneRecordsC rd location zone) in
                      case switch_qType rd p qType qName zone zoneRecords of
                        None \<Rightarrow>
                          Some (ErrorResponse rd req zoneName RcodeNotImplemented,
                                [Ev_ErrorResponse zoneName RcodeNotImplemented])
                      | Some (answers, extras) \<Rightarrow>
                          (let m = SetReply h req;
                               m = m\<lparr>Authoritative := True, RecursionAvailable := False, Compress := True\<rparr>;
                               m = m\<lparr>Answer := Answer m @ answers\<rparr>;
                               m = m\<lparr>Extra := Extra m @ extras\<rparr>;
                               m = Scrub h req (SizeAndDo h req m)
                           in Some ((RcodeSuccess, None), [Ev_WriteMsg m (WriteMsg h m)])))))))"

text \<open>
  The signal a call of \<^verbatim>\<open>ServeDNS\<close> gives, read off its first event that is not a
  log line: delegation to the next handler, an error response with its code, or an
  answer written or a zone transferred (success).
\<close>

datatype signal = Delegate | SERVFAIL | NXDOMAIN | NOTIMP | SUCCESS | Other_Rcode int

fun signal_of :: "'rr event list \<Rightarrow> signal option" where
  "signal_of [] = None"
| "signal_of (Ev_NextOrFailure q # evs) = Some Delegate"
| "signal_of (Ev_ErrorResponse z rc # evs) =
     Some (if rc = RcodeServerFailure then SERVFAIL
           else if rc = RcodeNameError then NXDOMAIN
           else if rc = RcodeNotImplemented then NOTIMP
           else Other_Rcode rc)"
| "signal_of (Ev_Out ops err # evs) = Some SUCCESS"
| "signal_of (Ev_WriteMsg m err # evs) = Some SUCCESS"
| "signal_of (Ev_Log s # evs) = signal_of evs"
| "signal_of (Ev_Println e # evs) = signal_of evs"
| "signal_of (Ev_Hijack # evs) = signal_of evs"

text \<open>The query types with a case of their own in the \<^verbatim>\<open>switch\<close>.\<close>

definition supported :: "16 word \<Rightarrow> bool" where
  "supported t = (t \<in> {TypeSOA, TypeA, TypeAAAA, TypeCNAME, TypeTXT, TypeNS, TypeMX, TypeSRV, TypePTR, TypeCAA})"

subsection \<open>A small store and host to run the model on\<close>

text \<open>
  A store with the single zone \<open>example.com.\<close> (a zone is its name), whose only locations
  are the apex and \<open>www\<close>; a resource record is its wire length. Every synthesizer
  answers with one record of length 20, the whole zone is three records. The host's
  writer and transfer both fail.
\<close>

definition ex_Redis :: "(string, unit, int) Redis" where
  "ex_Redis = \<lparr>
     LoadZoneC = (\<lambda>n. if n = ''example.com.'' then Some n else None),
     FindLocation = (\<lambda>q z. if q = z then q else if q = ''www.example.com.'' then ''www'' else []),
     LoadZoneRecordsC = (\<lambda>l z. ()),
     MakeFqdn = (\<lambda>z r. r),
     SOA = (\<lambda>z r. ([20], [])),
     A = (\<lambda>q z r. ([20], [])),
     AAAA = (\<lambda>q z r. ([20], [])),
     CNAME = (\<lambda>q z r. ([20], [])),
     TXT = (\<lambda>q z r. ([20], [])),
     NS = (\<lambda>q z r zs. ([20], [])),
     MX = (\<lambda>q z r zs. ([20], [])),
     SRV = (\<lambda>q z r zs. ([20], [])),
     PTR = (\<lambda>q z r zs. ([20], [])),
     CAA = (\<lambda>q z r. ([20], [])),
     ErrorResponse = (\<lambda>req z rc. (RcodeSuccess, None)),
     AXFR = (\<lambda>z zs. [600, 200, 600]),
     MaxTransferLength = 1000 \<rparr>"

definition ex_Host :: "int Host" where
  "ex_Host = \<lparr>
     NextOrFailure = (\<lambda>n req. (RcodeServerFailure, Some (Error ''no next plugin found''))),
     Len = (\<lambda>r. r),
     SetReply = (\<lambda>req. \<lparr>Authoritative = False, RecursionAvailable = False, Compress = False,
                          Answer = [], Extra = []\<rparr>),
     SizeAndDo = (\<lambda>req m. m),
     Scrub = (\<lambda>req m. m),
     WriteMsg = (\<lambda>m. Some (Error ''broken pipe'')),
     Out = (\<lambda>es. Some (Error ''broken pipe'')) \<rparr>"

definition ex_Plugin :: Plugin where
  "ex_Plugin = \<lparr>zones = [''com.'', ''example.com.'', ''example.org.'']\<rparr>"

subsection \<open>Properties of the producer\<close>

text \<open>
  The loop never panics; the envelopes it sends are, concatenated, the records from the
  initial \<open>j\<close> up to the final one, and the final \<open>j\<close> is an index of \<open>records\<close>
  unless nothing was ever sent.
\<close>

lemma range_loop_inv:
  "records = pre @ rs \<Longrightarrow> i = length pre \<Longrightarrow> j \<le> i \<Longrightarrow>
   \<exists>es j'. range_loop len L records rs i j l = Some (es, j') \<and> j \<le> j' \<and> j' \<le> length records
      \<and> (rs \<noteq> [] \<or> j < length records \<longrightarrow> j' < length records)
      \<and> concat (map RR es) = take (j' - j) (drop j records)"
proof (induction rs arbitrary: pre i j l)
  case Nil
  then show ?case by simp
next
  case (Cons r rs)
  have rec: "records = (pre @ [r]) @ rs" and idx: "Suc i = length (pre @ [r])"
    using Cons.prems by simp_all
  show ?case
  proof (cases "l + len r > L")
    case True
    from Cons.IH [OF rec idx, of i 0]
    obtain es j' where
      run: "range_loop len L records rs (Suc i) i 0 = Some (es, j')"
      and le: "i \<le> j'" "j' \<le> length records"
      and cat: "concat (map RR es) = take (j' - i) (drop i records)"
      by auto
    have ilt: "i < length records" using Cons.prems by simp
    from Cons.IH [OF rec idx, of i 0] run ilt have lt: "j' < length records"
      by auto
    have sl: "slice records j i = Some (take (i - j) (drop j records))"
      using Cons.prems by (simp add: slice_def)
    have "take (i - j) (drop j records) @ take (j' - i) (drop i records)
            = take (j' - j) (drop j records)"
    proof -
      have "take (j' - j) (drop j records)
              = take (i - j) (drop j records) @ take (j' - j - (i - j)) (drop (i - j) (drop j records))"
        using take_add [of "i - j" "j' - j - (i - j)" "drop j records"] Cons.prems(3) le(1)
        by simp
      moreover have "drop (i - j) (drop j records) = drop i records"
        using Cons.prems(3) by simp
      moreover have "j' - j - (i - j) = j' - i"
        using Cons.prems(3) le(1) by simp
      ultimately show ?thesis by simp
    qed
    then show ?thesis
      using True run le lt cat sl Cons.prems(3) by (simp add: Let_def)
  next
    case False
    from Cons.IH [OF rec idx, of j "l + len r"] Cons.prems(3)
    obtain es j' where
      run: "range_loop len L records rs (Suc i) j (l + len r) = Some (es, j')"
      and le: "j \<le> j'" "j' \<le> length records"
      and lt: "rs \<noteq> [] \<or> j < length records \<longrightarrow> j' < length records"
      and cat: "concat (map RR es) = take (j' - j) (drop j records)"
      by auto
    have "j < length records" using Cons.prems by simp
    then show ?thesis
      using False run le lt cat by (simp add: Let_def)
  qed
qed

lemma producer_returns: "\<exists>ops. producer len L R = Some ops"
proof -
  from range_loop_inv [of R "[]" R 0 0 len L 0]
  obtain es j' where run: "range_loop len L R R 0 0 0 = Some (es, j')" and le: "j' \<le> length R"
    by auto
  then show ?thesis
    by (simp add: producer_def slice_def)
qed

text \<open>
  Claim C4. For every record sequence \<open>R\<close> and every maximum transfer length \<open>L\<close>
  (and every length function), the producer does not panic, it sends its envelopes and
  then closes the channel, and the record lists of the envelopes, concatenated in the
  order they are sent, are \<open>R\<close> itself: nothing is duplicated, dropped or reordered.
\<close>

theorem producer_concat_records:
  "\<exists>es. producer len L R = Some (map Send es @ [Close]) \<and> concat (map RR es) = R"
proof -
  from range_loop_inv [of R "[]" R 0 0 len L 0]
  obtain es j' where
    run: "range_loop len L R R 0 0 0 = Some (es, j')"
    and le: "j' \<le> length R"
    and lt: "R \<noteq> [] \<longrightarrow> j' < length R"
    and cat: "concat (map RR es) = take j' R"
    by auto
  show ?thesis
  proof (cases "R = []")
    case True
    with run le show ?thesis by (simp add: producer_def)
  next
    case False
    with lt have j': "j' < length R" by simp
    then have sl: "slice R j' (length R) = Some (drop j' R)"
      by (simp add: slice_def)
    have "producer len L R = Some (map Send (es @ [\<lparr>RR = drop j' R\<rparr>]) @ [Close])"
      using run j' sl by (simp add: producer_def)
    moreover have "concat (map RR (es @ [\<lparr>RR = drop j' R\<rparr>])) = R"
      using cat by simp
    ultimately show ?thesis by blast
  qed
qed

text \<open>
  Claim C10. For an empty record sequence the producer sends no envelope: the only thing
  it does on the channel is to close it.
\<close>

theorem producer_no_records: "producer len L [] = Some [Close]"
  by (simp add: producer_def)

text \<open>
  Claim C1, evaluated on the code. Three records of wire length 600 and a maximum
  transfer length of 1000 (a record is its own length here): the second envelope holds
  two records and its length is 1200. After sending \<^verbatim>\<open>records[j:i]\<close> the loop sets \<open>l\<close> to 0,
  although record \<open>i\<close>, whose length it has just added, opens the next envelope.
\<close>

theorem producer_envelope_over_length:
  "producer (\<lambda>r. r) 1000 [600, 600, 600]
     = Some [Send \<lparr>RR = [600]\<rparr>, Send \<lparr>RR = [600, 600]\<rparr>, Close]
   \<and> envelope_len (\<lambda>r. r) \<lparr>RR = [600, 600]\<rparr> = 1200"
  by (simp add: producer_def slice_def envelope_len_def)

text \<open>
  Claim C6, evaluated on the code. A record of wire length 1200 followed by one of length
  50, with a maximum transfer length of 1000: the producer first sends an empty envelope
  (\<^verbatim>\<open>records[0:0]\<close>) and then one envelope holding both records, so the oversized
  record is not alone in its envelope.
\<close>

theorem producer_oversized_not_alone:
  "producer (\<lambda>r. r) 1000 [1200, 50] = Some [Send \<lparr>RR = []\<rparr>, Send \<lparr>RR = [1200, 50]\<rparr>, Close]"
  by (simp add: producer_def slice_def)

subsection \<open>Properties of the zone name cache\<close>

text \<open>
  Claim C2, evaluated on the code. The cache holds \<open>example.com.\<close> and the load of a
  refresh tick fails, returning no list and an error: after the tick the cached list is
  empty. The error is logged, but the assignment \<^verbatim>\<open>p.zones = z\<close> is not skipped.
\<close>

theorem refresh_tick_failure_replaces_zones:
  "refresh_tick ([], Some (Error ''connection refused'')) \<lparr>zones = [''example.com.'']\<rparr>
     = (\<lparr>zones = []\<rparr>, [''unable to load zones to cache'', ''zone name cache refreshed''])"
  by (simp add: refresh_tick_def)

text \<open>
  Claim C3, evaluated on the code. The startup load gives \<open>old.\<close>, and two ticks
  follow whose loads succeed with \<open>a.\<close> and then \<open>b.\<close>: the goroutine handles the
  first and returns, so the cache ends with the list of the first tick and one refresh
  is logged.
\<close>

theorem refresh_goroutine_handles_first_tick_only:
  "startZoneNameCache ([''old.''], None) [([''a.''], None), ([''b.''], None)] \<lparr>zones = []\<rparr>
     = Inr (\<lparr>zones = [''a.'']\<rparr>, [''zone name cache loaded'', ''zone name cache refreshed''])"
  by (simp add: startZoneNameCache_def refresh_tick_def)

subsection \<open>Properties of the zone match\<close>

lemma Matches_fold:
  "fold (\<lambda>zname zone. if suffix zname q \<and> length zone < length zname then zname else zone) zs acc = r \<Longrightarrow>
   (r = acc \<or> (r \<in> set zs \<and> suffix r q)) \<and> length acc \<le> length r
     \<and> (\<forall>z\<in>set zs. suffix z q \<longrightarrow> length z \<le> length r)"
proof (induction zs arbitrary: acc)
  case Nil
  then show ?case by simp
next
  case (Cons z zs)
  let ?acc' = "if suffix z q \<and> length acc < length z then z else acc"
  from Cons.prems have "fold (\<lambda>zname zone. if suffix zname q \<and> length zone < length zname then zname else zone) zs ?acc' = r"
    by simp
  from Cons.IH [OF this]
  have a: "r = ?acc' \<or> (r \<in> set zs \<and> suffix r q)" and b: "length ?acc' \<le> length r"
    and c: "\<forall>z\<in>set zs. suffix z q \<longrightarrow> length z \<le> length r"
    by blast+
  show ?case
  proof (cases "suffix z q \<and> length acc < length z")
    case True
    with a b c show ?thesis by auto
  next
    case False
    with a b c show ?thesis by auto
  qed
qed

text \<open>
  Claim C7. For every query name \<open>N\<close> and zone list \<open>Z\<close>: if some entry of \<open>Z\<close> is a
  suffix of \<open>N\<close>, the match is an entry of \<open>Z\<close> that is a suffix of \<open>N\<close> and no entry
  of \<open>Z\<close> that is a suffix of \<open>N\<close> is longer; otherwise the match is empty.
\<close>

theorem Matches_longest_suffix:
  "(if \<exists>z\<in>set Z. suffix z N
    then Matches Z N \<in> set Z \<and> suffix (Matches Z N) N
           \<and> (\<forall>z\<in>set Z. suffix z N \<longrightarrow> length z \<le> length (Matches Z N))
    else Matches Z N = [])"
proof -
  from Matches_fold [of N Z "[]" "Matches Z N"]
  have a: "Matches Z N = [] \<or> (Matches Z N \<in> set Z \<and> suffix (Matches Z N) N)"
    and c: "\<forall>z\<in>set Z. suffix z N \<longrightarrow> length z \<le> length (Matches Z N)"
    by (simp_all add: Matches_def)
  show ?thesis
  proof (cases "\<exists>z\<in>set Z. suffix z N")
    case True
    then obtain z where z: "z \<in> set Z" "suffix z N" by blast
    show ?thesis
    proof (cases "Matches Z N = []")
      case True
      with c z have "z = []" by auto
      with z True have "Matches Z N \<in> set Z \<and> suffix (Matches Z N) N" by simp
      with c \<open>\<exists>z\<in>set Z. suffix z N\<close> show ?thesis by simp
    next
      case False
      with a c \<open>\<exists>z\<in>set Z. suffix z N\<close> show ?thesis by simp
    qed
  next
    case False
    with a show ?thesis by auto
  qed
qed

text \<open>
  Claim C7 at the query name \<open>www.example.com.\<close> and the zones \<open>com.\<close>,
  \<open>example.com.\<close> and \<open>example.org.\<close>: the match is \<open>example.com.\<close>.
\<close>

theorem Matches_longest_suffix_witness:
  "''example.com.'' \<in> set [''com.'', ''example.com.'', ''example.org.'']
   \<and> suffix ''example.com.'' ''www.example.com.''
   \<and> Matches [''com.'', ''example.com.'', ''example.org.''] ''www.example.com.'' = ''example.com.''
   \<and> length ''com.'' \<le> length (Matches [''com.'', ''example.com.'', ''example.org.''] ''www.example.com.'')"
  using Matches_longest_suffix [of "[''com.'', ''example.com.'', ''example.org.'']" "''www.example.com.''"]
  by (simp add: suffix_to_prefix Matches_def)

subsection \<open>Properties of the zone transfer handler\<close>

lemma handleZoneTransfer_signal:
  "\<exists>evs. handleZoneTransfer rd h zone zs = Some ((RcodeSuccess, None), evs)
     \<and> signal_of evs = Some SUCCESS"
proof -
  obtain ops where "producer (Len h) (MaxTransferLength rd) (AXFR rd zone zs) = Some ops"
    using producer_returns by blast
  then show ?thesis
    by (simp add: handleZoneTransfer_def Let_def)
qed

text \<open>
  Claim C8. For every zone transfer, whatever \<^verbatim>\<open>tr.Out\<close> returns: the handler
  returns \<^verbatim>\<open>(dns.RcodeSuccess, nil)\<close>; it runs the transfer on what the producer
  offers, prints the transfer's error if there is one, and hijacks the connection last,
  with or without an error.
\<close>

theorem handleZoneTransfer_success:
  "\<exists>ops. handleZoneTransfer rd h zone zs =
     Some ((RcodeSuccess, None),
           [Ev_Out ops (Out h (sent ops))]
             @ (case Out h (sent ops) of None \<Rightarrow> [] | Some e \<Rightarrow> [Ev_Println e])
             @ [Ev_Hijack])"
proof -
  obtain ops where "producer (Len h) (MaxTransferLength rd) (AXFR rd zone zs) = Some ops"
    using producer_returns by blast
  then show ?thesis
    by (simp add: handleZoneTransfer_def Let_def)
qed

subsection \<open>Properties of the dispatcher\<close>

lemma supported_types:
  "supported t \<Longrightarrow> t \<noteq> TypeNone \<and> t \<noteq> TypeAXFR"
  by (auto simp: supported_def TypeNone_def TypeAXFR_def TypeSOA_def TypeA_def TypeAAAA_def
      TypeCNAME_def TypeTXT_def TypeNS_def TypeMX_def TypeSRV_def TypePTR_def TypeCAA_def)

lemma switch_qType_supported:
  "(switch_qType rd p t q zone recs \<noteq> None) = supported t"
  by (simp add: switch_qType_def supported_def)

text \<open>
  Claim C9. For every query with a non-empty name and a supported type (so neither unset
  nor AXFR) whose name matches a cached zone that loads and in which a location resolves,
  and for every response writer \<open>wm\<close>: \<^verbatim>\<open>ServeDNS\<close> writes one message and returns
  \<^verbatim>\<open>(dns.RcodeSuccess, nil)\<close>; what the writer returned for the message is in the
  event only.
\<close>

theorem ServeDNS_write_error_discarded:
  assumes "Name req \<noteq> []" and "supported (QType req)"
    and "Matches (zones p) (Name req) \<noteq> []"
    and "LoadZoneC rd (Matches (zones p) (Name req)) = Some zone"
    and "FindLocation rd (Name req) zone \<noteq> []"
  shows "\<exists>m. ServeDNS rd (h\<lparr>WriteMsg := wm\<rparr>) p req
               = Some ((RcodeSuccess, None), [Ev_WriteMsg m (wm m)])"
proof -
  from assms(2) have t: "QType req \<noteq> TypeNone" "QType req \<noteq> TypeAXFR"
    using supported_types by blast+
  from assms(2) obtain ae where
    sw: "switch_qType rd p (QType req) (Name req) zone
           (MakeFqdn rd zone (LoadZoneRecordsC rd (FindLocation rd (Name req) zone) zone)) = Some ae"
    using switch_qType_supported [of rd p "QType req" "Name req" zone] by blast
  obtain answers extras where ae: "ae = (answers, extras)" by (cases ae)
  show ?thesis
    using assms t sw ae by (simp add: ServeDNS_def Let_def)
qed

text \<open>
  Claim C9 at an AAAA query for \<open>www.example.com.\<close> against the small store, with a
  writer that fails on every message.
\<close>

theorem ServeDNS_write_error_discarded_witness:
  "Name \<lparr>Name = ''www.example.com.'', QType = TypeAAAA\<rparr> \<noteq> []
   \<and> supported TypeAAAA
   \<and> Matches (zones ex_Plugin) ''www.example.com.'' = ''example.com.''
   \<and> LoadZoneC ex_Redis ''example.com.'' = Some ''example.com.''
   \<and> FindLocation ex_Redis ''www.example.com.'' ''example.com.'' = ''www''
   \<and> (\<exists>m. ServeDNS ex_Redis (ex_Host\<lparr>WriteMsg := \<lambda>m. Some (Error ''connection reset'')\<rparr>) ex_Plugin
              \<lparr>Name = ''www.example.com.'', QType = TypeAAAA\<rparr>
            = Some ((RcodeSuccess, None), [Ev_WriteMsg m (Some (Error ''connection reset''))]))"
proof -
  have m: "Matches (zones ex_Plugin) ''www.example.com.'' = ''example.com.''"
    by (simp add: Matches_def ex_Plugin_def suffix_to_prefix)
  have s: "supported TypeAAAA" by (simp add: supported_def)
  have l: "LoadZoneC ex_Redis ''example.com.'' = Some ''example.com.''"
    by (simp add: ex_Redis_def)
  have f: "FindLocation ex_Redis ''www.example.com.'' ''example.com.'' = ''www''"
    by (simp add: ex_Redis_def)
  from ServeDNS_write_error_discarded [where req = "\<lparr>Name = ''www.example.com.'', QType = TypeAAAA\<rparr>"
      and p = ex_Plugin and rd = ex_Redis and zone = "''example.com.''" and h = ex_Host
      and wm = "\<lambda>m. Some (Error ''connection reset'')"]
    m s l f
  show ?thesis by simp
qed

text \<open>
  Claim C5, as stated, at an AXFR query for \<open>nosuch.example.com.\<close> against the small
  store: the name and type are set, the zone \<open>example.com.\<close> matches and loads, and no
  location resolves for the name, yet the signal is success (the zone is transferred),
  not NXDOMAIN. The AXFR test comes before the location lookup.
\<close>

theorem ServeDNS_AXFR_without_location:
  "Name \<lparr>Name = ''nosuch.example.com.'', QType = TypeAXFR\<rparr> \<noteq> []
   \<and> QType \<lparr>Name = ''nosuch.example.com.'', QType = TypeAXFR\<rparr> \<noteq> TypeNone
   \<and> Matches (zones ex_Plugin) ''nosuch.example.com.'' = ''example.com.''
   \<and> LoadZoneC ex_Redis ''example.com.'' = Some ''example.com.''
   \<and> FindLocation ex_Redis ''nosuch.example.com.'' ''example.com.'' = []
   \<and> ServeDNS ex_Redis ex_Host ex_Plugin \<lparr>Name = ''nosuch.example.com.'', QType = TypeAXFR\<rparr>
       = Some ((RcodeSuccess, None),
               [Ev_Log ''zone transfer request (Handler)'',
                Ev_Out [Send \<lparr>RR = [600, 200]\<rparr>, Send \<lparr>RR = [600]\<rparr>, Close] (Some (Error ''broken pipe'')),
                Ev_Println (Error ''broken pipe''), Ev_Hijack])
   \<and> signal_of [Ev_Log ''zone transfer request (Handler)'',
                Ev_Out [Send \<lparr>RR = [600, 200]\<rparr>, Send \<lparr>RR = [600]\<rparr>, Close] (Some (Error ''broken pipe'')),
                Ev_Println (Error ''broken pipe''), Ev_Hijack :: int event] = Some SUCCESS"
  by (simp add: ServeDNS_def Let_def Matches_def ex_Plugin_def ex_Redis_def ex_Host_def
      suffix_to_prefix handleZoneTransfer_def producer_def slice_def TypeAXFR_def TypeNone_def)

text \<open>
  Claim C5, amended. For every query \<^verbatim>\<open>ServeDNS\<close> returns, and its signal is:
  delegation when the name is empty, the type unset or no cached zone matches; SERVFAIL
  when the matched zone does not load; success when it loads and the type is AXFR;
  otherwise NXDOMAIN when no location resolves; otherwise success for a supported type
  and NOTIMP for any other. With the success signal the value returned is
  \<^verbatim>\<open>(dns.RcodeSuccess, nil)\<close>.
\<close>

theorem ServeDNS_signal:
  "\<exists>ret evs. ServeDNS rd h p req = Some (ret, evs)
     \<and> signal_of evs = Some
         (if Name req = [] \<or> QType req = TypeNone \<or> Matches (zones p) (Name req) = [] then Delegate
          else case LoadZoneC rd (Matches (zones p) (Name req)) of
                 None \<Rightarrow> SERVFAIL
               | Some zone \<Rightarrow>
                   if QType req = TypeAXFR then SUCCESS
                   else if FindLocation rd (Name req) zone = [] then NXDOMAIN
                   else if supported (QType req) then SUCCESS
                   else NOTIMP)
     \<and> (signal_of evs = Some SUCCESS \<longrightarrow> ret = (RcodeSuccess, None))"
proof (cases "Name req = [] \<or> QType req = TypeNone")
  case True
  then show ?thesis by (auto simp: ServeDNS_def Let_def)
next
  case query: False
  show ?thesis
  proof (cases "Matches (zones p) (Name req) = []")
    case True
    with query show ?thesis by (simp add: ServeDNS_def Let_def)
  next
    case matched: False
    show ?thesis
    proof (cases "LoadZoneC rd (Matches (zones p) (Name req))")
      case None
      with query matched show ?thesis
        by (simp add: ServeDNS_def Let_def RcodeServerFailure_def)
    next
      case (Some zone)
      show ?thesis
      proof (cases "QType req = TypeAXFR")
        case True
        obtain evs where "handleZoneTransfer rd h zone (zones p) = Some ((RcodeSuccess, None), evs)"
          and "signal_of evs = Some SUCCESS"
          using handleZoneTransfer_signal [of rd h zone "zones p"] by blast
        with query matched Some True show ?thesis
          by (simp add: ServeDNS_def Let_def)
      next
        case other: False
        show ?thesis
        proof (cases "FindLocation rd (Name req) zone = []")
          case True
          with query matched Some other show ?thesis
            by (simp add: ServeDNS_def Let_def RcodeServerFailure_def RcodeNameError_def)
        next
          case located: False
          let ?recs = "MakeFqdn rd zone (LoadZoneRecordsC rd (FindLocation rd (Name req) zone) zone)"
          show ?thesis
          proof (cases "switch_qType rd p (QType req) (Name req) zone ?recs")
            case None
            then have "\<not> supported (QType req)"
              using switch_qType_supported [of rd p "QType req" "Name req" zone ?recs] by simp
            with query matched Some other located None show ?thesis
              by (simp add: ServeDNS_def Let_def RcodeServerFailure_def RcodeNameError_def
                  RcodeNotImplemented_def)
          next
            case (Some ae)
            then have sup: "supported (QType req)"
              using switch_qType_supported [of rd p "QType req" "Name req" zone ?recs] by simp
            obtain answers extras where "ae = (answers, extras)" by (cases ae)
            with query matched \<open>LoadZoneC rd (Matches (zones p) (Name req)) = Some zone\<close>
              other located Some sup show ?thesis
              by (simp add: ServeDNS_def Let_def)
          qed
        qed
      qed
    qed
  qed
qed

text \<open>
  Claim C5, amended, at an AAAA query for \<open>www.example.com.\<close> against the small store:
  the answer is written and the signal is success.
\<close>

theorem ServeDNS_signal_witness:
  "ServeDNS ex_Redis ex_Host ex_Plugin \<lparr>Name = ''www.example.com.'', QType = TypeAAAA\<rparr>
     = Some ((RcodeSuccess, None),
             [Ev_WriteMsg \<lparr>Authoritative = True, RecursionAvailable = False, Compress = True,
                           Answer = [20], Extra = []\<rparr> (Some (Error ''broken pipe''))])
   \<and> signal_of [Ev_WriteMsg \<lparr>Authoritative = True, RecursionAvailable = False, Compress = True,
                           Answer = [20], Extra = []\<rparr> (Some (Error ''broken pipe''))] = Some SUCCESS"
  using ServeDNS_signal [of ex_Redis ex_Host ex_Plugin "\<lparr>Name = ''www.example.com.'', QType = TypeAAAA\<rparr>"]
  by (simp add: ServeDNS_def Let_def Matches_def ex_Plugin_def ex_Redis_def ex_Host_def
      suffix_to_prefix switch_qType_def TypeAAAA_def TypeNone_def TypeAXFR_def TypeSOA_def TypeA_def)

end
